theory Spec2Isabelle
  imports Complex_Main
begin

section \<open>JavaScript values\<close>

text \<open>
  A JavaScript number is not-a-number, an infinity or a finite value. A finite value is
  represented by the rational it denotes; the two zeros are one value here (both are falsy
  and neither is not-a-number, which is all that \<open>Client.js\<close> asks of a number).
\<close>

datatype number = NaN | PosInfinity | NegInfinity | Finite rat

text \<open>
  The primitive values a caller passes to the client. A string is a sequence of code units
  below 256. Objects, symbols and big integers are not arguments of this model: the
  documented types of the arguments are String and Number.
\<close>

datatype jsval =
    JUndefined
  | JNull
  | JBoolean bool
  | JNumber number
  | JString string

text \<open>A parsed JSON document: the body of a response.\<close>

datatype json =
    JsonNull
  | JsonBoolean bool
  | JsonNumber number
  | JsonString string
  | JsonArray "json list"
  | JsonObject "(string \<times> json) list"

text \<open>
  What a rejected promise or a \<open>throw\<close> carries: \<open>new Error(msg)\<close>,
  \<open>new TypeError(msg)\<close>, a TypeError raised by the engine itself (calling something
  that is not a function, reading a property of \<open>null\<close> or \<open>undefined\<close>), or
  any other reason, of a type \<open>'e\<close> the HTTP library chooses.
\<close>

datatype 'e js_error =
    Error string
  | TypeError string
  | EngineTypeError
  | Other 'e

text \<open>A settled promise: rejected with a reason (\<open>Inl\<close>) or fulfilled with a value.\<close>

type_synonym ('e, 'a) promise = "'e js_error + 'a"

text \<open>
  \<open>p.then(f)\<close>: a rejection passes through untouched; a fulfilled value goes to the
  callback, which returns (\<open>Inr\<close>) or throws (\<open>Inl\<close>).
\<close>

definition promise_then :: "('e, 'a) promise \<Rightarrow> ('a \<Rightarrow> ('e, 'b) promise) \<Rightarrow> ('e, 'b) promise" where
  "promise_then p f = (case p of Inl e \<Rightarrow> Inl e | Inr v \<Rightarrow> f v)"

subsection \<open>Truthiness\<close>

text \<open>\<open>ToBoolean\<close>: what \<open>if(v)\<close>, \<open>!v\<close> and \<open>v && w\<close> test.\<close>

fun truthy :: "jsval \<Rightarrow> bool" where
  "truthy JUndefined = False"
| "truthy JNull = False"
| "truthy (JBoolean b) = b"
| "truthy (JNumber NaN) = False"
| "truthy (JNumber PosInfinity) = True"
| "truthy (JNumber NegInfinity) = True"
| "truthy (JNumber (Finite q)) = (q \<noteq> 0)"
| "truthy (JString s) = (s \<noteq> [])"

subsection \<open>The global \<open>isNaN\<close>\<close>

text \<open>
  \<open>isNaN(v)\<close> converts \<open>v\<close> with \<open>ToNumber\<close> and tests the result. For a string
  the result is not-a-number exactly when the string does not match the grammar
  \<open>StringNumericLiteral\<close> of the language standard, which the following recognisers
  follow production by production.
\<close>

definition isStrWhiteSpaceChar :: "char \<Rightarrow> bool" where
  "isStrWhiteSpaceChar c =
     (c \<in> set [CHR 0x09, CHR 0x0A, CHR 0x0B, CHR 0x0C, CHR 0x0D, CHR 0x20, CHR 0xA0])"

definition trimString :: "string \<Rightarrow> string" where
  "trimString s = rev (dropWhile isStrWhiteSpaceChar (rev (dropWhile isStrWhiteSpaceChar s)))"

definition isDecimalDigit :: "char \<Rightarrow> bool" where
  "isDecimalDigit c = (c \<in> set ''0123456789'')"

definition isDigits :: "string \<Rightarrow> string \<Rightarrow> bool" where
  "isDigits alphabet s = (s \<noteq> [] \<and> list_all (\<lambda>c. c \<in> set alphabet) s)"

definition isExponentPart :: "string \<Rightarrow> bool" where
  "isExponentPart s =
     (case s of
        [] \<Rightarrow> False
      | e # r \<Rightarrow>
          (e = CHR ''e'' \<or> e = CHR ''E'') \<and>
          (case r of
             [] \<Rightarrow> False
           | sg # d \<Rightarrow>
               if sg = CHR ''+'' \<or> sg = CHR ''-'' then isDigits ''0123456789'' d
               else isDigits ''0123456789'' r))"

definition isStrUnsignedDecimalLiteral :: "string \<Rightarrow> bool" where
  "isStrUnsignedDecimalLiteral s =
     (s = ''Infinity'' \<or>
      (let ip = takeWhile isDecimalDigit s; r = dropWhile isDecimalDigit s
       in case r of
            [] \<Rightarrow> ip \<noteq> []
          | d # r2 \<Rightarrow>
              if d = CHR ''.'' then
                (let fp = takeWhile isDecimalDigit r2; r3 = dropWhile isDecimalDigit r2
                 in \<not> (ip = [] \<and> fp = []) \<and> (r3 = [] \<or> isExponentPart r3))
              else ip \<noteq> [] \<and> isExponentPart r))"

definition isStrDecimalLiteral :: "string \<Rightarrow> bool" where
  "isStrDecimalLiteral s =
     (case s of
        [] \<Rightarrow> False
      | sg # r \<Rightarrow>
          if sg = CHR ''+'' \<or> sg = CHR ''-'' then isStrUnsignedDecimalLiteral r
          else isStrUnsignedDecimalLiteral s)"

definition isNonDecimalIntegerLiteral :: "string \<Rightarrow> bool" where
  "isNonDecimalIntegerLiteral s =
     (case s of
        z # p # ds \<Rightarrow>
          z = CHR ''0'' \<and>
          (if p = CHR ''x'' \<or> p = CHR ''X'' then isDigits ''0123456789abcdefABCDEF'' ds
           else if p = CHR ''o'' \<or> p = CHR ''O'' then isDigits ''01234567'' ds
           else if p = CHR ''b'' \<or> p = CHR ''B'' then isDigits ''01'' ds
           else False)
      | _ \<Rightarrow> False)"

definition isStringNumericLiteral :: "string \<Rightarrow> bool" where
  "isStringNumericLiteral s =
     (let b = trimString s
      in b = [] \<or> isStrDecimalLiteral b \<or> isNonDecimalIntegerLiteral b)"

fun isNaN :: "jsval \<Rightarrow> bool" where
  "isNaN JUndefined = True"
| "isNaN JNull = False"
| "isNaN (JBoolean b) = False"
| "isNaN (JNumber n) = (n = NaN)"
| "isNaN (JString s) = (\<not> isStringNumericLiteral s)"

subsection \<open>Object literals\<close>

text \<open>
  An object literal is the list of its own properties in insertion order, each key once.
  Reading a key that is absent gives \<open>undefined\<close>; assigning to a key replaces its value
  in place, or appends the property.
\<close>

type_synonym obj = "(string \<times> jsval) list"

definition get_property :: "obj \<Rightarrow> string \<Rightarrow> jsval" where
  "get_property ob k = (case map_of ob k of None \<Rightarrow> JUndefined | Some v \<Rightarrow> v)"

fun assign :: "obj \<Rightarrow> string \<Rightarrow> jsval \<Rightarrow> obj" where
  "assign [] k v = [(k, v)]"
| "assign ((k', v') # ob) k v = (if k' = k then (k, v) # ob else (k', v') # assign ob k v)"

section \<open>The HTTP library\<close>

text \<open>
  \<open>ladybug-fetch\<close> is an external package. What \<open>Client.js\<close> hands to it is a
  request: the URL, the object given to \<open>.query\<close> and the headers given to \<open>.set\<close>.
  What it gives back is a promise of a response, of which \<open>Client.js\<close> reads the
  field \<open>body\<close>. The network is a function from the request to that outcome, and the
  requests issued so far are kept in a log, in order.
\<close>

record request =
  url :: string
  query :: obj
  headers :: obj

record response =
  body :: json

type_synonym 'e transport = "request \<Rightarrow> ('e, response) promise"

definition ladybug :: "'e transport \<Rightarrow> request \<Rightarrow> request list \<Rightarrow> ('e, response) promise \<times> request list" where
  "ladybug net req sent = (net req, sent @ [req])"

text \<open>Two stub networks: one answers every request with the same body, one rejects every request.\<close>

definition respond_with :: "json \<Rightarrow> 'e transport" where
  "respond_with b = (\<lambda>req. Inr \<lparr>body = b\<rparr>)"

definition reject_with :: "'e js_error \<Rightarrow> 'e transport" where
  "reject_with e = (\<lambda>req. Inl e)"

section \<open>The modules \<open>Client.js\<close> requires\<close>

text \<open>
  \<open>require("./utils")\<close> provides \<open>validate\<close> and \<open>clean\<close>. The client is
  modelled over any such pair of functions on strings.
\<close>

record utils =
  validate :: "string \<Rightarrow> bool"
  clean :: "string \<Rightarrow> string"

text \<open>
  \<open>utils.js\<close> itself is not among the sources. The two functions below follow the
  TagNormalizer of the spec, so that the client can be run on concrete tags. The accepted
  alphabet is the digits and the letters of \<open>0289PYLQGRJCUV\<close>.
\<close>

text \<open>
  Upper case, as \<open>String.prototype.toUpperCase\<close> gives it on code units below 256:
  \<open>a\<close> to \<open>z\<close> and the accented letters from \<open>0xE0\<close> to \<open>0xFE\<close> (the
  division sign \<open>0xF7\<close> apart) become the letter \<open>0x20\<close> below; the sharp s
  \<open>0xDF\<close> becomes \<open>SS\<close>; every other code unit is its own upper case. The micro
  sign \<open>0xB5\<close> and \<open>0xFF\<close> have their capitals above 255: the two are left as
  they are, and a tag that holds one of them is outside this model.
\<close>

definition lower_case_letters :: string where
  "lower_case_letters =
     ''abcdefghijklmnopqrstuvwxyz'' @
       [CHR 0xE0, CHR 0xE1, CHR 0xE2, CHR 0xE3, CHR 0xE4, CHR 0xE5, CHR 0xE6, CHR 0xE7,
        CHR 0xE8, CHR 0xE9, CHR 0xEA, CHR 0xEB, CHR 0xEC, CHR 0xED, CHR 0xEE, CHR 0xEF,
        CHR 0xF0, CHR 0xF1, CHR 0xF2, CHR 0xF3, CHR 0xF4, CHR 0xF5, CHR 0xF6, CHR 0xF8,
        CHR 0xF9, CHR 0xFA, CHR 0xFB, CHR 0xFC, CHR 0xFD, CHR 0xFE]"

definition upper_case_letters :: string where
  "upper_case_letters =
     ''ABCDEFGHIJKLMNOPQRSTUVWXYZ'' @
       [CHR 0xC0, CHR 0xC1, CHR 0xC2, CHR 0xC3, CHR 0xC4, CHR 0xC5, CHR 0xC6, CHR 0xC7,
        CHR 0xC8, CHR 0xC9, CHR 0xCA, CHR 0xCB, CHR 0xCC, CHR 0xCD, CHR 0xCE, CHR 0xCF,
        CHR 0xD0, CHR 0xD1, CHR 0xD2, CHR 0xD3, CHR 0xD4, CHR 0xD5, CHR 0xD6, CHR 0xD8,
        CHR 0xD9, CHR 0xDA, CHR 0xDB, CHR 0xDC, CHR 0xDD, CHR 0xDE]"

definition toUpperCase :: "char \<Rightarrow> string" where
  "toUpperCase c =
     (if c = CHR 0xDF then ''SS''
      else case map_of (zip lower_case_letters upper_case_letters) c of
             None \<Rightarrow> [c]
           | Some u \<Rightarrow> [u])"

definition accepted_alphabet :: string where
  "accepted_alphabet = ''0123456789PYLQGRJCUV''"

definition strip_leading_hash :: "string \<Rightarrow> string" where
  "strip_leading_hash tag = (case tag of [] \<Rightarrow> [] | c # r \<Rightarrow> if c = CHR ''#'' then r else tag)"

text \<open>
  Modelled from the spec: \<open>clean\<close> of \<open>utils.js\<close>, which is missing. It strips a
  leading \<open>#\<close>, uppercases all letters, and rewrites every \<open>O\<close> to \<open>0\<close>.
\<close>

definition TagNormalizer_clean :: "string \<Rightarrow> string" where
  "TagNormalizer_clean tag =
     map (\<lambda>c. if c = CHR ''O'' then CHR ''0'' else c)
       (concat (map toUpperCase (strip_leading_hash tag)))"

text \<open>
  Modelled from the spec: \<open>validate\<close> of \<open>utils.js\<close>, which is missing. It returns
  false if the tag is empty or, after stripping a leading \<open>#\<close>, folding case and
  rewriting \<open>O\<close>, contains a character outside the accepted alphabet; true otherwise.
\<close>

definition TagNormalizer_validate :: "string \<Rightarrow> bool" where
  "TagNormalizer_validate tag =
     (if tag = [] then False
      else list_all (\<lambda>c. c \<in> set accepted_alphabet) (TagNormalizer_clean tag))"

definition TagNormalizer :: utils where
  "TagNormalizer = \<lparr>validate = TagNormalizer_validate, clean = TagNormalizer_clean\<rparr>"

text \<open>
  The instance: the token, defined once by the constructor and not writable. An instance
  is the value of its token.
\<close>

record client =
  token :: jsval

text \<open>
  Modelled from the spec: the classes of \<open>structures/Player.js\<close> and
  \<open>structures/Club.js\<close>, which are missing. The spec describes a domain object as a
  wrapper around one JSON record together with a reference to the client that produced
  it; \<open>new Player(c, raw)\<close> and \<open>new Club(c, raw)\<close> are the two constructors.
\<close>

datatype "structure" =
    Player (client_of: client) (data_of: json)
  | Club (client_of: client) (data_of: json)

section \<open>Client.js\<close>

text \<open>
  \<open>constructor(options = {})\<close>: an omitted argument (\<open>None\<close>) takes the default
  \<open>{}\<close>. A throw is \<open>Inl\<close>; otherwise the instance holds the token.
\<close>

definition new_Client :: "obj option \<Rightarrow> 'e js_error + client" where
  "new_Client options =
     (let options = (case options of None \<Rightarrow> [] | Some ob \<Rightarrow> ob)
      in if \<not> truthy (get_property options ''token'')
         then Inl (Error ''Missing Authorization Token.'')
         else Inr \<lparr>token = get_property options ''token''\<rparr>)"

text \<open>
  \<open>_get(endpoint, query = {})\<close>. Every operation below takes the log of requests and
  returns it with the promise it settles.
\<close>

definition Client_get ::
  "'e transport \<Rightarrow> client \<Rightarrow> string \<Rightarrow> obj option \<Rightarrow> request list \<Rightarrow> ('e, json) promise \<times> request list" where
  "Client_get net this endpoint qry sent =
     (let qry = (case qry of None \<Rightarrow> [] | Some ob \<Rightarrow> ob);
          (res, sent') =
             ladybug net
               \<lparr>url = ''https://brawlapi.cf/api/'' @ endpoint,
                query = qry,
                headers = assign [] ''Authorization'' (token this)\<rparr> sent
      in (promise_then res (\<lambda>res. Inr (body res)), sent'))"

text \<open>
  Property access on a JSON value: \<open>null\<close> has no properties (reading one throws);
  an object gives the value of the key or \<open>undefined\<close> (\<open>None\<close>); the keys read in
  \<open>Client.js\<close>, \<open>data\<close> and \<open>endpoints\<close>, are \<open>undefined\<close> on a boolean, a
  number, a string and an array.
\<close>

definition json_property :: "json \<Rightarrow> string \<Rightarrow> ('e, json option) promise" where
  "json_property v k =
     (case v of
        JsonNull \<Rightarrow> Inl EngineTypeError
      | JsonObject kvs \<Rightarrow> Inr (map_of kvs k)
      | _ \<Rightarrow> Inr None)"

definition getEndpoints ::
  "'e transport \<Rightarrow> client \<Rightarrow> request list \<Rightarrow> ('e, json option) promise \<times> request list" where
  "getEndpoints net this sent =
     (let (p, sent') = Client_get net this [] None sent
      in (promise_then p
            (\<lambda>res. case json_property res ''data'' of
                      Inl e \<Rightarrow> Inl e
                    | Inr None \<Rightarrow> Inl EngineTypeError
                    | Inr (Some d) \<Rightarrow> json_property d ''endpoints''),
          sent'))"

definition getPlayer ::
  "utils \<Rightarrow> 'e transport \<Rightarrow> client \<Rightarrow> string \<Rightarrow> request list \<Rightarrow> ('e, structure) promise \<times> request list" where
  "getPlayer U net this tag sent =
     (if \<not> validate U tag then (Inl (Error ''Invalid Tag.''), sent)
      else
        (let (p, sent') = Client_get net this ''player'' (Some [(''tag'', JString (clean U tag))]) sent
         in (promise_then p (\<lambda>res. Inr (Player this res)), sent')))"

definition getClub ::
  "utils \<Rightarrow> 'e transport \<Rightarrow> client \<Rightarrow> string \<Rightarrow> request list \<Rightarrow> ('e, structure) promise \<times> request list" where
  "getClub U net this tag sent =
     (if \<not> validate U tag then (Inl (Error ''Invalid Tag.''), sent)
      else
        (let (p, sent') = Client_get net this ''club'' (Some [(''tag'', JString (clean U tag))]) sent
         in (promise_then p (\<lambda>res. Inr (Club this res)), sent')))"

definition about ::
  "'e transport \<Rightarrow> client \<Rightarrow> request list \<Rightarrow> ('e, json) promise \<times> request list" where
  "about net this sent = Client_get net this ''about'' None sent"

text \<open>
  \<open>res.map(f)\<close> on a JSON value: an array maps; anything else has no function
  \<open>map\<close> to call, and the callback throws.
\<close>

definition json_map :: "json \<Rightarrow> (json \<Rightarrow> 'a) \<Rightarrow> ('e, 'a list) promise" where
  "json_map res f = (case res of JsonArray xs \<Rightarrow> Inr (map f xs) | _ \<Rightarrow> Inl EngineTypeError)"

text \<open>
  \<open>getTopPlayers({ count, brawler } = {})\<close>: an omitted argument takes the default
  \<open>{}\<close>, and a key the object lacks is \<open>undefined\<close>.
\<close>

definition getTopPlayers ::
  "'e transport \<Rightarrow> client \<Rightarrow> obj option \<Rightarrow> request list \<Rightarrow> ('e, structure list) promise \<times> request list" where
  "getTopPlayers net this options sent =
     (let options = (case options of None \<Rightarrow> [] | Some ob \<Rightarrow> ob);
          count = get_property options ''count'';
          brawler = get_property options ''brawler''
      in if truthy count \<and> isNaN count
         then (Inl (TypeError ''Count must be a number.''), sent)
         else
           (let qry = [];
                qry = (if truthy count then assign qry ''count'' count else qry);
                qry = (if truthy brawler then assign qry ''brawler'' brawler else qry);
                (p, sent') = Client_get net this ''/leaderboards/players'' (Some qry) sent
            in (promise_then p (\<lambda>res. json_map res (\<lambda>player. Player this player)), sent')))"

definition getTopClubs ::
  "'e transport \<Rightarrow> client \<Rightarrow> jsval \<Rightarrow> request list \<Rightarrow> ('e, structure list) promise \<times> request list" where
  "getTopClubs net this count sent =
     (if truthy count \<and> isNaN count
      then (Inl (TypeError ''Count must be a number.''), sent)
      else
        (let qry = [];
             qry = (if truthy count then assign qry ''count'' count else qry);
             (p, sent') = Client_get net this ''/leaderboards/clubs'' (Some qry) sent
         in (promise_then p (\<lambda>res. json_map res (\<lambda>club. Club this club)), sent')))"

definition Client_events ::
  "'e transport \<Rightarrow> client \<Rightarrow> jsval \<Rightarrow> request list \<Rightarrow> ('e, json) promise \<times> request list" where
  "Client_events net this type sent = Client_get net this ''events'' (Some [(''type'', type)]) sent"

definition getUpcomingEvents ::
  "'e transport \<Rightarrow> client \<Rightarrow> request list \<Rightarrow> ('e, json) promise \<times> request list" where
  "getUpcomingEvents net this sent = Client_events net this (JString ''upcoming'') sent"

definition getCurrentEvents ::
  "'e transport \<Rightarrow> client \<Rightarrow> request list \<Rightarrow> ('e, json) promise \<times> request list" where
  "getCurrentEvents net this sent = Client_events net this (JString ''current'') sent"

definition getMisc ::
  "'e transport \<Rightarrow> client \<Rightarrow> request list \<Rightarrow> ('e, json) promise \<times> request list" where
  "getMisc net this sent = Client_get net this ''misc'' None sent"

definition clubSearch ::
  "'e transport \<Rightarrow> client \<Rightarrow> jsval \<Rightarrow> request list \<Rightarrow> ('e, structure list) promise \<times> request list" where
  "clubSearch net this qry sent =
     (let (p, sent') = Client_get net this ''clubSearch'' (Some [(''query'', qry)]) sent
      in (promise_then p (\<lambda>res. json_map res (\<lambda>club. Club this club)), sent'))"

section \<open>What one call does\<close>

lemmas isNaN_string_defs =
  isStringNumericLiteral_def trimString_def isStrWhiteSpaceChar_def isStrDecimalLiteral_def
  isStrUnsignedDecimalLiteral_def isNonDecimalIntegerLiteral_def isDecimalDigit_def
  isExponentPart_def isDigits_def

lemmas operation_defs =
  getEndpoints_def getPlayer_def getClub_def about_def getTopPlayers_def getTopClubs_def
  Client_events_def getUpcomingEvents_def getCurrentEvents_def getMisc_def clubSearch_def

lemmas TagNormalizer_defs =
  TagNormalizer_def TagNormalizer_validate_def TagNormalizer_clean_def strip_leading_hash_def
  toUpperCase_def lower_case_letters_def upper_case_letters_def accepted_alphabet_def

lemma promise_then_simps:
  "promise_then (Inl e) f = Inl e"
  "promise_then (Inr v) f = f v"
  by (simp_all add: promise_then_def)

text \<open>\<open>_get\<close> issues exactly one request and settles as the network does, on the body.\<close>

lemma Client_get_run:
  "Client_get net this endpoint qry sent =
     (promise_then
        (net \<lparr>url = ''https://brawlapi.cf/api/'' @ endpoint,
              query = (case qry of None \<Rightarrow> [] | Some ob \<Rightarrow> ob),
              headers = [(''Authorization'', token this)]\<rparr>)
        (\<lambda>res. Inr (body res)),
      sent @ [\<lparr>url = ''https://brawlapi.cf/api/'' @ endpoint,
               query = (case qry of None \<Rightarrow> [] | Some ob \<Rightarrow> ob),
               headers = [(''Authorization'', token this)]\<rparr>])"
  by (simp add: Client_get_def ladybug_def Let_def)

text \<open>Each operation, as the one request it issues and what it makes of the answer.\<close>

lemma promise_then_Inr:
  "promise_then p f = Inr y \<longleftrightarrow> (\<exists>v. p = Inr v \<and> f v = Inr y)"
  by (cases p) (simp_all add: promise_then_def)

lemma json_map_Inr:
  "json_map res f = Inr ys \<longleftrightarrow> (\<exists>xs. res = JsonArray xs \<and> ys = map f xs)"
  by (cases res) (auto simp: json_map_def)

lemma getPlayer_run:
  "getPlayer U net this tag sent =
     (if \<not> validate U tag then (Inl (Error ''Invalid Tag.''), sent)
      else
        (promise_then
           (net \<lparr>url = ''https://brawlapi.cf/api/player'',
                 query = [(''tag'', JString (clean U tag))],
                 headers = [(''Authorization'', token this)]\<rparr>)
           (\<lambda>res. Inr (Player this (body res))),
         sent @ [\<lparr>url = ''https://brawlapi.cf/api/player'',
                  query = [(''tag'', JString (clean U tag))],
                  headers = [(''Authorization'', token this)]\<rparr>]))"
  by (simp add: getPlayer_def Client_get_run promise_then_def split: sum.splits)

lemma getClub_run:
  "getClub U net this tag sent =
     (if \<not> validate U tag then (Inl (Error ''Invalid Tag.''), sent)
      else
        (promise_then
           (net \<lparr>url = ''https://brawlapi.cf/api/club'',
                 query = [(''tag'', JString (clean U tag))],
                 headers = [(''Authorization'', token this)]\<rparr>)
           (\<lambda>res. Inr (Club this (body res))),
         sent @ [\<lparr>url = ''https://brawlapi.cf/api/club'',
                  query = [(''tag'', JString (clean U tag))],
                  headers = [(''Authorization'', token this)]\<rparr>]))"
  by (simp add: getClub_def Client_get_run promise_then_def split: sum.splits)

lemma getTopClubs_run:
  "getTopClubs net this count sent =
     (if truthy count \<and> isNaN count then (Inl (TypeError ''Count must be a number.''), sent)
      else
        (promise_then
           (net \<lparr>url = ''https://brawlapi.cf/api//leaderboards/clubs'',
                 query = (if truthy count then [(''count'', count)] else []),
                 headers = [(''Authorization'', token this)]\<rparr>)
           (\<lambda>res. json_map (body res) (Club this)),
         sent @ [\<lparr>url = ''https://brawlapi.cf/api//leaderboards/clubs'',
                  query = (if truthy count then [(''count'', count)] else []),
                  headers = [(''Authorization'', token this)]\<rparr>]))"
  by (simp add: getTopClubs_def Client_get_run promise_then_def split: sum.splits)

lemma getTopPlayers_run:
  "getTopPlayers net this options sent =
     (let ob = (case options of None \<Rightarrow> [] | Some ob \<Rightarrow> ob);
          count = get_property ob ''count'';
          brawler = get_property ob ''brawler''
      in if truthy count \<and> isNaN count then (Inl (TypeError ''Count must be a number.''), sent)
         else
           (promise_then
              (net \<lparr>url = ''https://brawlapi.cf/api//leaderboards/players'',
                    query = (if truthy count then [(''count'', count)] else []) @
                            (if truthy brawler then [(''brawler'', brawler)] else []),
                    headers = [(''Authorization'', token this)]\<rparr>)
              (\<lambda>res. json_map (body res) (Player this)),
            sent @ [\<lparr>url = ''https://brawlapi.cf/api//leaderboards/players'',
                     query = (if truthy count then [(''count'', count)] else []) @
                             (if truthy brawler then [(''brawler'', brawler)] else []),
                     headers = [(''Authorization'', token this)]\<rparr>]))"
  by (simp add: getTopPlayers_def Client_get_run promise_then_def Let_def split: sum.splits)

lemma clubSearch_run:
  "clubSearch net this q sent =
     (promise_then
        (net \<lparr>url = ''https://brawlapi.cf/api/clubSearch'', query = [(''query'', q)],
              headers = [(''Authorization'', token this)]\<rparr>)
        (\<lambda>res. json_map (body res) (Club this)),
      sent @ [\<lparr>url = ''https://brawlapi.cf/api/clubSearch'', query = [(''query'', q)],
               headers = [(''Authorization'', token this)]\<rparr>])"
  by (simp add: clubSearch_def Client_get_run promise_then_def split: sum.splits)


lemma getEndpoints_run:
  "getEndpoints net this sent =
     (promise_then
        (net \<lparr>url = ''https://brawlapi.cf/api/'', query = [],
              headers = [(''Authorization'', token this)]\<rparr>)
        (\<lambda>res. case json_property (body res) ''data'' of
                  Inl e \<Rightarrow> Inl e
                | Inr None \<Rightarrow> Inl EngineTypeError
                | Inr (Some d) \<Rightarrow> json_property d ''endpoints''),
      sent @ [\<lparr>url = ''https://brawlapi.cf/api/'', query = [],
               headers = [(''Authorization'', token this)]\<rparr>])"
  by (simp add: getEndpoints_def Client_get_run promise_then_def split: sum.splits)

lemma plain_get_run:
  "about net this sent = Client_get net this ''about'' None sent"
  "getMisc net this sent = Client_get net this ''misc'' None sent"
  "getUpcomingEvents net this sent =
     Client_get net this ''events'' (Some [(''type'', JString ''upcoming'')]) sent"
  "getCurrentEvents net this sent =
     Client_get net this ''events'' (Some [(''type'', JString ''current'')]) sent"
  by (simp_all add: about_def getMisc_def getUpcomingEvents_def getCurrentEvents_def
      Client_events_def)

lemmas run_simps =
  getEndpoints_run getPlayer_run getClub_run getTopPlayers_run getTopClubs_run clubSearch_run
  plain_get_run Client_get_run

section \<open>Tag validation comes before the network\<close>

text \<open>
  C1. For every string tag that fails validation, \<open>getPlayer(tag)\<close> and
  \<open>getClub(tag)\<close> return a promise rejected with \<open>Error("Invalid Tag.")\<close> and the
  log of requests is unchanged: the HTTP library is not called. This holds for whatever
  \<open>validate\<close> the module \<open>utils\<close> provides; the validation the spec describes
  fails the empty string and \<open>###\<close>.
\<close>

theorem C1_invalid_tag_rejected_before_transport:
  "(\<not> validate U tag \<longrightarrow>
      getPlayer U net this tag sent = (Inl (Error ''Invalid Tag.''), sent) \<and>
      getClub U net this tag sent = (Inl (Error ''Invalid Tag.''), sent)) \<and>
   \<not> validate TagNormalizer [] \<and> \<not> validate TagNormalizer ''###''"
  by (simp add: getPlayer_def getClub_def TagNormalizer_defs)

theorem C1_witness:
  "\<not> validate TagNormalizer ''###'' \<and>
   getPlayer TagNormalizer (respond_with JsonNull :: unit transport) \<lparr>token = JString ''t''\<rparr> ''###'' [] =
     (Inl (Error ''Invalid Tag.''), []) \<and>
   getClub TagNormalizer (respond_with JsonNull :: unit transport) \<lparr>token = JString ''t''\<rparr> ''###'' [] =
     (Inl (Error ''Invalid Tag.''), [])"
  using C1_invalid_tag_rejected_before_transport
    [of TagNormalizer "''###''" "respond_with JsonNull :: unit transport" "\<lparr>token = JString ''t''\<rparr>" "[]"]
  by simp

section \<open>The count argument\<close>

text \<open>
  C2, as amended. For every count that is truthy (so not \<open>undefined\<close>, \<open>null\<close>,
  \<open>false\<close>, zero, not-a-number or the empty string) and for which \<open>isNaN(count)\<close>
  holds, \<open>getTopPlayers({count})\<close> and \<open>getTopClubs(count)\<close> return a promise
  rejected with \<open>TypeError("Count must be a number.")\<close>, and the log of requests is
  unchanged.
\<close>

theorem C2_truthy_non_numeric_count_rejected:
  "truthy count \<and> isNaN count \<Longrightarrow> get_property ob ''count'' = count \<Longrightarrow>
     getTopPlayers net this (Some ob) sent = (Inl (TypeError ''Count must be a number.''), sent) \<and>
     getTopClubs net this count sent = (Inl (TypeError ''Count must be a number.''), sent)"
  by (simp add: getTopPlayers_def getTopClubs_def)

theorem C2_witness:
  "truthy (JString ''abc'') \<and> isNaN (JString ''abc'') \<and>
   get_property [(''count'', JString ''abc'')] ''count'' = JString ''abc'' \<and>
   getTopPlayers (respond_with (JsonArray []) :: unit transport) \<lparr>token = JString ''t''\<rparr>
       (Some [(''count'', JString ''abc'')]) [] =
     (Inl (TypeError ''Count must be a number.''), []) \<and>
   getTopClubs (respond_with (JsonArray []) :: unit transport) \<lparr>token = JString ''t''\<rparr>
       (JString ''abc'') [] =
     (Inl (TypeError ''Count must be a number.''), [])"
  using C2_truthy_non_numeric_count_rejected
    [of "JString ''abc''" "[(''count'', JString ''abc'')]"
        "respond_with (JsonArray []) :: unit transport" "\<lparr>token = JString ''t''\<rparr>" "[]"]
  by (simp add: get_property_def isNaN_string_defs)

text \<open>
  The claim as stated, for every count that is provided and non-numeric, fails at the
  number not-a-number: it is passed (it is not \<open>undefined\<close>) and \<open>isNaN\<close> holds of
  it, but it is falsy, so the guard \<open>count && isNaN(count)\<close> lets it through; the
  request goes out, without a count. The empty string, a string that is no number, is
  let through the same way.
\<close>

theorem C2_counterexample:
  "JNumber NaN \<noteq> JUndefined \<and> isNaN (JNumber NaN) \<and>
   getTopClubs (respond_with (JsonArray []) :: unit transport) \<lparr>token = JString ''t''\<rparr>
       (JNumber NaN) [] =
     (Inr [],
      [\<lparr>url = ''https://brawlapi.cf/api//leaderboards/clubs'', query = [],
        headers = [(''Authorization'', JString ''t'')]\<rparr>]) \<and>
   getTopPlayers (respond_with (JsonArray []) :: unit transport) \<lparr>token = JString ''t''\<rparr>
       (Some [(''count'', JNumber NaN)]) [] =
     (Inr [],
      [\<lparr>url = ''https://brawlapi.cf/api//leaderboards/players'', query = [],
        headers = [(''Authorization'', JString ''t'')]\<rparr>]) \<and>
   getTopClubs (respond_with (JsonArray []) :: unit transport) \<lparr>token = JString ''t''\<rparr>
       (JString []) [] =
     (Inr [],
      [\<lparr>url = ''https://brawlapi.cf/api//leaderboards/clubs'', query = [],
        headers = [(''Authorization'', JString ''t'')]\<rparr>])"
  by (simp add: getTopClubs_def getTopPlayers_def Client_get_run respond_with_def
      promise_then_simps json_map_def get_property_def)

text \<open>
  C10. A count of zero is falsy: the numeric check is skipped, the query gets no
  \<open>count\<close>, and the call goes to the HTTP library and settles as it does. The call
  is the same as the one with no count at all.
\<close>

theorem C10_zero_count_is_absent:
  "\<not> truthy (JNumber (Finite 0)) \<and>
   getTopClubs net this (JNumber (Finite 0)) sent =
     (promise_then
        (net \<lparr>url = ''https://brawlapi.cf/api//leaderboards/clubs'', query = [],
              headers = [(''Authorization'', token this)]\<rparr>)
        (\<lambda>res. json_map (body res) (Club this)),
      sent @ [\<lparr>url = ''https://brawlapi.cf/api//leaderboards/clubs'', query = [],
               headers = [(''Authorization'', token this)]\<rparr>]) \<and>
   getTopClubs net this (JNumber (Finite 0)) sent = getTopClubs net this JUndefined sent \<and>
   getTopPlayers net this (Some [(''count'', JNumber (Finite 0))]) sent =
     (promise_then
        (net \<lparr>url = ''https://brawlapi.cf/api//leaderboards/players'', query = [],
              headers = [(''Authorization'', token this)]\<rparr>)
        (\<lambda>res. json_map (body res) (Player this)),
      sent @ [\<lparr>url = ''https://brawlapi.cf/api//leaderboards/players'', query = [],
               headers = [(''Authorization'', token this)]\<rparr>]) \<and>
   getTopPlayers net this (Some [(''count'', JNumber (Finite 0))]) sent =
     getTopPlayers net this None sent \<and>
   getTopPlayers net this (Some [(''count'', JNumber (Finite 0)), (''brawler'', b)]) sent =
     getTopPlayers net this (Some [(''brawler'', b)]) sent"
  by (simp add: getTopClubs_def getTopPlayers_def Client_get_run get_property_def Let_def
      promise_then_def split: sum.splits)

section \<open>The request\<close>

text \<open>
  Eight operations ask for \<open>https://brawlapi.cf/api/\<close> followed by the name of
  their endpoint, and every request carries the token in its Authorization header.
\<close>

lemma request_urls:
  "map url (snd (getEndpoints net this sent)) = map url sent @ [''https://brawlapi.cf/api/'']"
  "validate U tag \<Longrightarrow>
     map url (snd (getPlayer U net this tag sent)) = map url sent @ [''https://brawlapi.cf/api/player'']"
  "validate U tag \<Longrightarrow>
     map url (snd (getClub U net this tag sent)) = map url sent @ [''https://brawlapi.cf/api/club'']"
  "map url (snd (about net this sent)) = map url sent @ [''https://brawlapi.cf/api/about'']"
  "map url (snd (getUpcomingEvents net this sent)) = map url sent @ [''https://brawlapi.cf/api/events'']"
  "map url (snd (getCurrentEvents net this sent)) = map url sent @ [''https://brawlapi.cf/api/events'']"
  "map url (snd (getMisc net this sent)) = map url sent @ [''https://brawlapi.cf/api/misc'']"
  "map url (snd (clubSearch net this q sent)) = map url sent @ [''https://brawlapi.cf/api/clubSearch'']"
  by (simp_all add: operation_defs Client_get_run Let_def)

lemma request_headers:
  "snd (Client_get net this endpoint qry sent) = sent @ [req] \<Longrightarrow>
     headers req = [(''Authorization'', token this)]"
  by (auto simp: Client_get_run)

text \<open>
  C3. The two leaderboard operations pass the endpoint \<open>/leaderboards/players\<close> and
  \<open>/leaderboards/clubs\<close>, with a leading slash, to \<open>_get\<close>, which has already
  written the slash after \<open>api\<close>: the path they request is
  \<open>/api//leaderboards/...\<close>, not \<open>/api/leaderboards/...\<close>.
\<close>

theorem C3_leaderboard_urls:
  "snd (getTopPlayers net this None []) =
     [\<lparr>url = ''https://brawlapi.cf/api//leaderboards/players'', query = [],
       headers = [(''Authorization'', token this)]\<rparr>] \<and>
   snd (getTopClubs net this JUndefined []) =
     [\<lparr>url = ''https://brawlapi.cf/api//leaderboards/clubs'', query = [],
       headers = [(''Authorization'', token this)]\<rparr>] \<and>
   ''https://brawlapi.cf/api//leaderboards/players'' \<noteq> ''https://brawlapi.cf/api/leaderboards/players'' \<and>
   ''https://brawlapi.cf/api//leaderboards/clubs'' \<noteq> ''https://brawlapi.cf/api/leaderboards/clubs''"
  by (simp add: getTopClubs_def getTopPlayers_def Client_get_run get_property_def)

section \<open>Responses\<close>

text \<open>
  C4. When the request of \<open>getTopPlayers\<close>, \<open>getTopClubs\<close> or \<open>clubSearch\<close> is
  answered with a JSON array, the promise is fulfilled with one domain object per element
  of the array, of the same length, each wrapping its element, in the order of the array;
  the empty array gives the empty list.
\<close>

theorem C4_list_results_keep_order:
  "(snd (getTopPlayers net this options sent) = sent @ [req] \<and>
    net req = Inr \<lparr>body = JsonArray xs\<rparr> \<longrightarrow>
      fst (getTopPlayers net this options sent) = Inr (map (Player this) xs)) \<and>
   (snd (getTopClubs net this count sent) = sent @ [req] \<and>
    net req = Inr \<lparr>body = JsonArray xs\<rparr> \<longrightarrow>
      fst (getTopClubs net this count sent) = Inr (map (Club this) xs)) \<and>
   (snd (clubSearch net this q sent) = sent @ [req] \<and>
    net req = Inr \<lparr>body = JsonArray xs\<rparr> \<longrightarrow>
      fst (clubSearch net this q sent) = Inr (map (Club this) xs)) \<and>
   length (map (Player this) xs) = length xs \<and> map data_of (map (Player this) xs) = xs \<and>
   length (map (Club this) xs) = length xs \<and> map data_of (map (Club this) xs) = xs"
  by (auto simp: run_simps Let_def promise_then_simps json_map_def comp_def)

theorem C4_witness:
  "snd (getTopClubs
          (respond_with (JsonArray [JsonObject [(''tag'', JsonString ''A'')],
                                    JsonObject [(''tag'', JsonString ''B'')]]) :: unit transport)
          \<lparr>token = JString ''t''\<rparr> JUndefined []) =
     [] @ [\<lparr>url = ''https://brawlapi.cf/api//leaderboards/clubs'', query = [],
            headers = [(''Authorization'', JString ''t'')]\<rparr>] \<and>
   fst (getTopClubs
          (respond_with (JsonArray [JsonObject [(''tag'', JsonString ''A'')],
                                    JsonObject [(''tag'', JsonString ''B'')]]) :: unit transport)
          \<lparr>token = JString ''t''\<rparr> JUndefined []) =
     Inr [Club \<lparr>token = JString ''t''\<rparr> (JsonObject [(''tag'', JsonString ''A'')]),
          Club \<lparr>token = JString ''t''\<rparr> (JsonObject [(''tag'', JsonString ''B'')])] \<and>
   snd (clubSearch (respond_with (JsonArray []) :: unit transport)
          \<lparr>token = JString ''t''\<rparr> (JString ''nobody'') []) =
     [] @ [\<lparr>url = ''https://brawlapi.cf/api/clubSearch'', query = [(''query'', JString ''nobody'')],
            headers = [(''Authorization'', JString ''t'')]\<rparr>] \<and>
   fst (clubSearch (respond_with (JsonArray []) :: unit transport)
          \<lparr>token = JString ''t''\<rparr> (JString ''nobody'') []) = Inr [] \<and>
   snd (getTopPlayers (respond_with (JsonArray [JsonNull]) :: unit transport)
          \<lparr>token = JString ''t''\<rparr> (Some [(''count'', JNumber (Finite 20))]) []) =
     [] @ [\<lparr>url = ''https://brawlapi.cf/api//leaderboards/players'',
            query = [(''count'', JNumber (Finite 20))],
            headers = [(''Authorization'', JString ''t'')]\<rparr>] \<and>
   fst (getTopPlayers (respond_with (JsonArray [JsonNull]) :: unit transport)
          \<lparr>token = JString ''t''\<rparr> (Some [(''count'', JNumber (Finite 20))]) []) =
     Inr [Player \<lparr>token = JString ''t''\<rparr> JsonNull]"
  using
    C4_list_results_keep_order
      [of "respond_with (JsonArray [JsonObject [(''tag'', JsonString ''A'')],
                                    JsonObject [(''tag'', JsonString ''B'')]]) :: unit transport"
          "\<lparr>token = JString ''t''\<rparr>" None "[]"
          "\<lparr>url = ''https://brawlapi.cf/api//leaderboards/clubs'', query = [],
            headers = [(''Authorization'', JString ''t'')]\<rparr>"
          "[JsonObject [(''tag'', JsonString ''A'')], JsonObject [(''tag'', JsonString ''B'')]]"
          JUndefined]
    C4_list_results_keep_order
      [of "respond_with (JsonArray []) :: unit transport"
          "\<lparr>token = JString ''t''\<rparr>" None "[]"
          "\<lparr>url = ''https://brawlapi.cf/api/clubSearch'', query = [(''query'', JString ''nobody'')],
            headers = [(''Authorization'', JString ''t'')]\<rparr>"
          "[]" JUndefined "JString ''nobody''"]
    C4_list_results_keep_order
      [of "respond_with (JsonArray [JsonNull]) :: unit transport"
          "\<lparr>token = JString ''t''\<rparr>" "Some [(''count'', JNumber (Finite 20))]" "[]"
          "\<lparr>url = ''https://brawlapi.cf/api//leaderboards/players'',
            query = [(''count'', JNumber (Finite 20))],
            headers = [(''Authorization'', JString ''t'')]\<rparr>"
          "[JsonNull]"]
  by (simp add: getTopClubs_def getTopPlayers_def clubSearch_def Client_get_run respond_with_def
      get_property_def)

text \<open>
  C9. Every domain object an operation resolves to, alone or in a list, refers to the
  client the operation was called on; \<open>getPlayer\<close> resolves to the Player wrapping
  exactly the body of the response.
\<close>

theorem C9_back_reference_is_the_client:
  "(fst (getPlayer U net this tag sent) = Inr y \<longrightarrow> client_of y = this) \<and>
   (fst (getClub U net this tag sent) = Inr y \<longrightarrow> client_of y = this) \<and>
   (fst (getTopPlayers net this options sent) = Inr ys \<longrightarrow>
      list_all (\<lambda>y. client_of y = this) ys) \<and>
   (fst (getTopClubs net this count sent) = Inr ys \<longrightarrow>
      list_all (\<lambda>y. client_of y = this) ys) \<and>
   (fst (clubSearch net this q sent) = Inr ys \<longrightarrow>
      list_all (\<lambda>y. client_of y = this) ys) \<and>
   (validate U tag \<and>
    net \<lparr>url = ''https://brawlapi.cf/api/player'',
         query = [(''tag'', JString (clean U tag))],
         headers = [(''Authorization'', token this)]\<rparr> = Inr \<lparr>body = raw\<rparr> \<longrightarrow>
      fst (getPlayer U net this tag sent) = Inr (Player this raw) \<and>
      client_of (Player this raw) = this \<and> data_of (Player this raw) = raw)"
  by (auto simp: run_simps Let_def promise_then_Inr json_map_Inr list_all_iff promise_then_simps
      split: if_splits)

theorem C9_witness:
  "validate TagNormalizer ''pyl0'' \<and>
   fst (getPlayer TagNormalizer
          (respond_with (JsonObject [(''tag'', JsonString ''#PYL0'')]) :: unit transport)
          \<lparr>token = JString ''t''\<rparr> ''pyl0'' []) =
     Inr (Player \<lparr>token = JString ''t''\<rparr> (JsonObject [(''tag'', JsonString ''#PYL0'')])) \<and>
   client_of (Player \<lparr>token = JString ''t''\<rparr> (JsonObject [(''tag'', JsonString ''#PYL0'')])) =
     \<lparr>token = JString ''t''\<rparr> \<and>
   fst (getTopClubs (respond_with (JsonArray [JsonNull, JsonBoolean True]) :: unit transport)
          \<lparr>token = JString ''t''\<rparr> JUndefined []) =
     Inr [Club \<lparr>token = JString ''t''\<rparr> JsonNull, Club \<lparr>token = JString ''t''\<rparr> (JsonBoolean True)] \<and>
   list_all (\<lambda>y. client_of y = \<lparr>token = JString ''t''\<rparr>)
     [Club \<lparr>token = JString ''t''\<rparr> JsonNull, Club \<lparr>token = JString ''t''\<rparr> (JsonBoolean True)]"
  using
    C9_back_reference_is_the_client
      [of TagNormalizer
          "respond_with (JsonObject [(''tag'', JsonString ''#PYL0'')]) :: unit transport"
          "\<lparr>token = JString ''t''\<rparr>" "''pyl0''" "[]"
          "Player \<lparr>token = JString ''t''\<rparr> (JsonObject [(''tag'', JsonString ''#PYL0'')])"
          None "[]" JUndefined JUndefined "JsonObject [(''tag'', JsonString ''#PYL0'')]"]
    C9_back_reference_is_the_client
      [of TagNormalizer
          "respond_with (JsonArray [JsonNull, JsonBoolean True]) :: unit transport"
          "\<lparr>token = JString ''t''\<rparr>" "''pyl0''" "[]"
          "Player \<lparr>token = JString ''t''\<rparr> JsonNull"
          None "[Club \<lparr>token = JString ''t''\<rparr> JsonNull, Club \<lparr>token = JString ''t''\<rparr> (JsonBoolean True)]"
          JUndefined JUndefined JsonNull]
  by (simp add: getPlayer_def getTopClubs_def Client_get_run respond_with_def TagNormalizer_defs
      promise_then_simps json_map_def)

section \<open>Failures of the network\<close>

text \<open>
  C5, as amended. When the request an operation issues is rejected with \<open>e\<close>, the
  promise the operation returns is rejected with \<open>e\<close> itself, for each of the ten
  public operations; \<open>getClub\<close> of any tag that passes validation is an instance,
  and so is \<open>getClub("PYL")\<close> under the validation of the spec.
\<close>

theorem C5_transport_failure_propagates:
  "net req = Inl e \<Longrightarrow>
     (snd (getEndpoints net this sent) = sent @ [req] \<longrightarrow>
        fst (getEndpoints net this sent) = Inl e) \<and>
     (snd (getPlayer U net this tag sent) = sent @ [req] \<longrightarrow>
        fst (getPlayer U net this tag sent) = Inl e) \<and>
     (snd (getClub U net this tag sent) = sent @ [req] \<longrightarrow>
        fst (getClub U net this tag sent) = Inl e) \<and>
     (snd (about net this sent) = sent @ [req] \<longrightarrow>
        fst (about net this sent) = Inl e) \<and>
     (snd (getTopPlayers net this options sent) = sent @ [req] \<longrightarrow>
        fst (getTopPlayers net this options sent) = Inl e) \<and>
     (snd (getTopClubs net this count sent) = sent @ [req] \<longrightarrow>
        fst (getTopClubs net this count sent) = Inl e) \<and>
     (snd (getUpcomingEvents net this sent) = sent @ [req] \<longrightarrow>
        fst (getUpcomingEvents net this sent) = Inl e) \<and>
     (snd (getCurrentEvents net this sent) = sent @ [req] \<longrightarrow>
        fst (getCurrentEvents net this sent) = Inl e) \<and>
     (snd (getMisc net this sent) = sent @ [req] \<longrightarrow>
        fst (getMisc net this sent) = Inl e) \<and>
     (snd (clubSearch net this q sent) = sent @ [req] \<longrightarrow>
        fst (clubSearch net this q sent) = Inl e) \<and>
     (validate U tag \<longrightarrow>
        getClub U (reject_with e) this tag sent =
          (Inl e,
           sent @ [\<lparr>url = ''https://brawlapi.cf/api/club'',
                    query = [(''tag'', JString (clean U tag))],
                    headers = [(''Authorization'', token this)]\<rparr>])) \<and>
     getClub TagNormalizer (reject_with e) this ''PYL'' sent =
       (Inl e,
        sent @ [\<lparr>url = ''https://brawlapi.cf/api/club'',
                 query = [(''tag'', JString ''PYL'')],
                 headers = [(''Authorization'', token this)]\<rparr>])"
proof -
  assume rejected: "net req = Inl e"
  have ops: "(snd (getEndpoints net this sent) = sent @ [req] \<longrightarrow>
        fst (getEndpoints net this sent) = Inl e) \<and>
     (snd (getPlayer U net this tag sent) = sent @ [req] \<longrightarrow>
        fst (getPlayer U net this tag sent) = Inl e) \<and>
     (snd (getClub U net this tag sent) = sent @ [req] \<longrightarrow>
        fst (getClub U net this tag sent) = Inl e) \<and>
     (snd (about net this sent) = sent @ [req] \<longrightarrow>
        fst (about net this sent) = Inl e) \<and>
     (snd (getTopPlayers net this options sent) = sent @ [req] \<longrightarrow>
        fst (getTopPlayers net this options sent) = Inl e) \<and>
     (snd (getTopClubs net this count sent) = sent @ [req] \<longrightarrow>
        fst (getTopClubs net this count sent) = Inl e) \<and>
     (snd (getUpcomingEvents net this sent) = sent @ [req] \<longrightarrow>
        fst (getUpcomingEvents net this sent) = Inl e) \<and>
     (snd (getCurrentEvents net this sent) = sent @ [req] \<longrightarrow>
        fst (getCurrentEvents net this sent) = Inl e) \<and>
     (snd (getMisc net this sent) = sent @ [req] \<longrightarrow>
        fst (getMisc net this sent) = Inl e) \<and>
     (snd (clubSearch net this q sent) = sent @ [req] \<longrightarrow>
        fst (clubSearch net this q sent) = Inl e)"
    using rejected
    by (auto simp: run_simps Let_def promise_then_simps split: if_splits)
  have any_tag: "validate U tag \<longrightarrow>
        getClub U (reject_with e) this tag sent =
          (Inl e,
           sent @ [\<lparr>url = ''https://brawlapi.cf/api/club'',
                    query = [(''tag'', JString (clean U tag))],
                    headers = [(''Authorization'', token this)]\<rparr>])"
    by (simp add: getClub_run reject_with_def promise_then_simps)
  have pyl: "validate TagNormalizer ''PYL''" "clean TagNormalizer ''PYL'' = ''PYL''"
    by (simp_all add: TagNormalizer_defs)
  then have example: "getClub TagNormalizer (reject_with e) this ''PYL'' sent =
       (Inl e,
        sent @ [\<lparr>url = ''https://brawlapi.cf/api/club'',
                 query = [(''tag'', JString ''PYL'')],
                 headers = [(''Authorization'', token this)]\<rparr>])"
    by (simp add: getClub_run reject_with_def promise_then_simps)
  from ops any_tag example show ?thesis
    by (intro conjI) (erule conjunct1 conjunct2 | assumption | blast)+
qed

theorem C5_witness:
  "(reject_with (Other ''ECONNREFUSED'') :: string transport)
     \<lparr>url = ''https://brawlapi.cf/api/club'', query = [(''tag'', JString ''PYL'')],
      headers = [(''Authorization'', JString ''t'')]\<rparr> = Inl (Other ''ECONNREFUSED'') \<and>
   validate TagNormalizer ''#pyl'' \<and>
   snd (getClub TagNormalizer (reject_with (Other ''ECONNREFUSED'')) \<lparr>token = JString ''t''\<rparr> ''#pyl'' []) =
     [] @ [\<lparr>url = ''https://brawlapi.cf/api/club'', query = [(''tag'', JString ''PYL'')],
            headers = [(''Authorization'', JString ''t'')]\<rparr>] \<and>
   fst (getClub TagNormalizer (reject_with (Other ''ECONNREFUSED'')) \<lparr>token = JString ''t''\<rparr> ''#pyl'' []) =
     Inl (Other ''ECONNREFUSED'') \<and>
   snd (getEndpoints (reject_with (Other ''ECONNREFUSED'') :: string transport) \<lparr>token = JString ''t''\<rparr> []) =
     [] @ [\<lparr>url = ''https://brawlapi.cf/api/'', query = [],
            headers = [(''Authorization'', JString ''t'')]\<rparr>] \<and>
   fst (getEndpoints (reject_with (Other ''ECONNREFUSED'') :: string transport) \<lparr>token = JString ''t''\<rparr> []) =
     Inl (Other ''ECONNREFUSED'') \<and>
   snd (getTopPlayers (reject_with (Other ''ECONNREFUSED'') :: string transport) \<lparr>token = JString ''t''\<rparr>
          (Some [(''brawler'', JString ''shelly'')]) []) =
     [] @ [\<lparr>url = ''https://brawlapi.cf/api//leaderboards/players'',
            query = [(''brawler'', JString ''shelly'')],
            headers = [(''Authorization'', JString ''t'')]\<rparr>] \<and>
   fst (getTopPlayers (reject_with (Other ''ECONNREFUSED'') :: string transport) \<lparr>token = JString ''t''\<rparr>
          (Some [(''brawler'', JString ''shelly'')]) []) =
     Inl (Other ''ECONNREFUSED'')"
  using
    C5_transport_failure_propagates
      [of "reject_with (Other ''ECONNREFUSED'') :: string transport"
          "\<lparr>url = ''https://brawlapi.cf/api/club'', query = [(''tag'', JString ''PYL'')],
            headers = [(''Authorization'', JString ''t'')]\<rparr>"
          "Other ''ECONNREFUSED''" "\<lparr>token = JString ''t''\<rparr>" "[]" TagNormalizer "''#pyl''"]
    C5_transport_failure_propagates
      [of "reject_with (Other ''ECONNREFUSED'') :: string transport"
          "\<lparr>url = ''https://brawlapi.cf/api/'', query = [],
            headers = [(''Authorization'', JString ''t'')]\<rparr>"
          "Other ''ECONNREFUSED''" "\<lparr>token = JString ''t''\<rparr>" "[]" TagNormalizer "''#pyl''"]
    C5_transport_failure_propagates
      [of "reject_with (Other ''ECONNREFUSED'') :: string transport"
          "\<lparr>url = ''https://brawlapi.cf/api//leaderboards/players'',
            query = [(''brawler'', JString ''shelly'')],
            headers = [(''Authorization'', JString ''t'')]\<rparr>"
          "Other ''ECONNREFUSED''" "\<lparr>token = JString ''t''\<rparr>" "[]" TagNormalizer "''#pyl''"
          "Some [(''brawler'', JString ''shelly'')]"]
  by (simp add: getClub_def getEndpoints_def getTopPlayers_def Client_get_run reject_with_def
      TagNormalizer_defs promise_then_simps get_property_def)

text \<open>
  The claim as stated names \<open>getClub("ABC")\<close> as the instance. The letters \<open>A\<close>
  and \<open>B\<close> are outside the accepted alphabet, so the validation of the spec refuses
  the tag: the call is rejected with \<open>Error("Invalid Tag.")\<close>, not with the error
  of the network, and no request is issued.
\<close>

theorem C5_counterexample:
  "\<not> validate TagNormalizer ''ABC'' \<and>
   getClub TagNormalizer (reject_with (Other ''ECONNREFUSED'') :: string transport)
       \<lparr>token = JString ''t''\<rparr> ''ABC'' [] =
     (Inl (Error ''Invalid Tag.''), []) \<and>
   (Error ''Invalid Tag.'' :: string js_error) \<noteq> Other ''ECONNREFUSED''"
  by (simp add: getClub_def TagNormalizer_defs)

section \<open>The query\<close>

text \<open>
  C6, as amended. The query each operation passes to \<open>_get\<close>: none for
  \<open>getEndpoints\<close>, \<open>about\<close> and \<open>getMisc\<close>; the type for the two event
  operations; \<open>count\<close> and \<open>brawler\<close> exactly when they are truthy for the
  leaderboards, so that a falsy one is left out; the cleaned tag for \<open>getPlayer\<close> and
  \<open>getClub\<close>; and for \<open>clubSearch\<close> the key \<open>query\<close> with the argument as it
  was given, whatever it is.
\<close>

theorem C6_query_of_each_operation:
  "map query (snd (getEndpoints net this sent)) = map query sent @ [[]] \<and>
   map query (snd (about net this sent)) = map query sent @ [[]] \<and>
   map query (snd (getMisc net this sent)) = map query sent @ [[]] \<and>
   map query (snd (getUpcomingEvents net this sent)) =
     map query sent @ [[(''type'', JString ''upcoming'')]] \<and>
   map query (snd (getCurrentEvents net this sent)) =
     map query sent @ [[(''type'', JString ''current'')]] \<and>
   (\<not> (truthy (get_property ob ''count'') \<and> isNaN (get_property ob ''count'')) \<longrightarrow>
      map query (snd (getTopPlayers net this (Some ob) sent)) =
        map query sent @
        [(if truthy (get_property ob ''count'')
          then [(''count'', get_property ob ''count'')] else []) @
         (if truthy (get_property ob ''brawler'')
          then [(''brawler'', get_property ob ''brawler'')] else [])]) \<and>
   (\<not> (truthy count \<and> isNaN count) \<longrightarrow>
      map query (snd (getTopClubs net this count sent)) =
        map query sent @ [if truthy count then [(''count'', count)] else []]) \<and>
   (validate U tag \<longrightarrow>
      map query (snd (getPlayer U net this tag sent)) =
        map query sent @ [[(''tag'', JString (clean U tag))]] \<and>
      map query (snd (getClub U net this tag sent)) =
        map query sent @ [[(''tag'', JString (clean U tag))]]) \<and>
   map query (snd (clubSearch net this q sent)) = map query sent @ [[(''query'', q)]]"
  by (simp add: run_simps Let_def)

theorem C6_witness:
  "\<not> (truthy (JString ''20'') \<and> isNaN (JString ''20'')) \<and>
   get_property [(''count'', JString ''20''), (''brawler'', JString [])] ''count'' = JString ''20'' \<and>
   map query
     (snd (getTopPlayers (respond_with (JsonArray []) :: unit transport) \<lparr>token = JString ''t''\<rparr>
            (Some [(''count'', JString ''20''), (''brawler'', JString [])]) [])) =
     [[(''count'', JString ''20'')]] \<and>
   \<not> (truthy (JNumber (Finite 20)) \<and> isNaN (JNumber (Finite 20))) \<and>
   map query
     (snd (getTopClubs (respond_with (JsonArray []) :: unit transport) \<lparr>token = JString ''t''\<rparr>
            (JNumber (Finite 20)) [])) =
     [[(''count'', JNumber (Finite 20))]] \<and>
   validate TagNormalizer ''#pyl'' \<and>
   map query
     (snd (getPlayer TagNormalizer (respond_with (JsonArray []) :: unit transport)
            \<lparr>token = JString ''t''\<rparr> ''#pyl'' [])) =
     [[(''tag'', JString ''PYL'')]] \<and>
   map query
     (snd (clubSearch (respond_with (JsonArray []) :: unit transport) \<lparr>token = JString ''t''\<rparr>
            JUndefined [])) =
     [[(''query'', JUndefined)]]"
  using C6_query_of_each_operation
    [of "respond_with (JsonArray []) :: unit transport" "\<lparr>token = JString ''t''\<rparr>" "[]"
        "[(''count'', JString ''20''), (''brawler'', JString [])]" "JNumber (Finite 20)"
        TagNormalizer "''#pyl''" JUndefined]
  by (simp add: get_property_def isNaN_string_defs TagNormalizer_defs)

text \<open>
  The claim as stated, no key with an empty value in any operation's query, fails for
  \<open>clubSearch("")\<close>: the query is \<open>{query: ""}\<close>.
\<close>

theorem C6_counterexample:
  "snd (clubSearch (respond_with (JsonArray []) :: unit transport) \<lparr>token = JString ''t''\<rparr>
         (JString []) []) =
     [\<lparr>url = ''https://brawlapi.cf/api/clubSearch'', query = [(''query'', JString [])],
       headers = [(''Authorization'', JString ''t'')]\<rparr>]"
  by (simp add: clubSearch_def Client_get_run)

section \<open>The constructor\<close>

text \<open>
  C8. \<open>new Client()\<close> and \<open>new Client(options)\<close> with no \<open>token\<close> among the
  options throw \<open>Error("Missing Authorization Token.")\<close>: no instance is made.
\<close>

theorem C8_missing_token_fails:
  "new_Client None = Inl (Error ''Missing Authorization Token.'') \<and>
   (map_of ob ''token'' = None \<longrightarrow>
      new_Client (Some ob) = Inl (Error ''Missing Authorization Token.''))"
  by (simp add: new_Client_def get_property_def)

theorem C8_witness:
  "map_of [(''timeout'', JNumber (Finite 5))] ''token'' = None \<and>
   (new_Client (Some [(''timeout'', JNumber (Finite 5))]) :: unit js_error + client) =
     Inl (Error ''Missing Authorization Token.'') \<and>
   (new_Client None :: unit js_error + client) = Inl (Error ''Missing Authorization Token.'')"
  using C8_missing_token_fails [of "[(''timeout'', JNumber (Finite 5))]", where ?'a = unit and ?'b = unit]
  by simp

section \<open>The tag normaliser of the spec\<close>

lemma accepted_toUpperCase: "c \<in> set accepted_alphabet \<Longrightarrow> toUpperCase c = [c]"
  by (simp add: accepted_alphabet_def)
     (elim disjE; simp add: toUpperCase_def lower_case_letters_def upper_case_letters_def)

lemma accepted_not_O: "c \<in> set accepted_alphabet \<Longrightarrow> c \<noteq> CHR ''O''"
  by (simp add: accepted_alphabet_def) (elim disjE; simp)

lemma accepted_not_hash: "c \<in> set accepted_alphabet \<Longrightarrow> c \<noteq> CHR ''#''"
  by (simp add: accepted_alphabet_def) (elim disjE; simp)

lemma strip_leading_hash_accepted:
  "list_all (\<lambda>c. c \<in> set accepted_alphabet) s \<Longrightarrow> strip_leading_hash s = s"
  by (cases s) (simp_all add: strip_leading_hash_def accepted_not_hash)

lemma fold_case_accepted:
  "list_all (\<lambda>c. c \<in> set accepted_alphabet) s \<Longrightarrow>
     map (\<lambda>c. if c = CHR ''O'' then CHR ''0'' else c) (concat (map toUpperCase s)) = s"
proof (induction s)
  case Nil
  show ?case by simp
next
  case (Cons c s)
  then have c: "c \<in> set accepted_alphabet" and s: "list_all (\<lambda>c. c \<in> set accepted_alphabet) s"
    by simp_all
  from c have "toUpperCase c = [c]" "c \<noteq> CHR ''O''"
    by (rule accepted_toUpperCase, rule accepted_not_O)
  with Cons.IH [OF s] show ?case by simp
qed

lemma TagNormalizer_clean_accepted:
  "list_all (\<lambda>c. c \<in> set accepted_alphabet) s \<Longrightarrow> TagNormalizer_clean s = s"
  unfolding TagNormalizer_clean_def
  by (simp only: strip_leading_hash_accepted fold_case_accepted)

lemma toUpperCase_other:
  "c \<noteq> CHR 0xDF \<Longrightarrow> c \<notin> set lower_case_letters \<Longrightarrow> toUpperCase c = [c]"
  by (simp add: toUpperCase_def lower_case_letters_def upper_case_letters_def)


lemma fold_char_no_lower_case:
  "list_all (\<lambda>d. d \<notin> set lower_case_letters \<and> d \<noteq> CHR ''O'')
     (map (\<lambda>c. if c = CHR ''O'' then CHR ''0'' else c) (toUpperCase c))"
proof (cases "c = CHR 0xDF")
  case True
  then show ?thesis
    by (simp add: toUpperCase_def lower_case_letters_def)
next
  case sharp: False
  show ?thesis
  proof (cases "c \<in> set lower_case_letters")
    case True
    then show ?thesis
      by (simp add: lower_case_letters_def)
         (elim disjE; simp add: toUpperCase_def lower_case_letters_def upper_case_letters_def)
  next
    case False
    with sharp have "toUpperCase c = [c]"
      by (rule toUpperCase_other)
    moreover have "CHR ''0'' \<notin> set lower_case_letters"
      by (simp add: lower_case_letters_def)
    ultimately show ?thesis
      using False by simp
  qed
qed

lemma fold_char_accepted_iff:
  "list_all (\<lambda>d. d \<in> set accepted_alphabet)
     (map (\<lambda>c. if c = CHR ''O'' then CHR ''0'' else c) (toUpperCase c)) \<longleftrightarrow>
   c \<in> set ''0123456789PYLQGRJCUVpylqgrjcuvOo''"
proof (cases "c = CHR 0xDF")
  case True
  then show ?thesis
    by (simp add: toUpperCase_def accepted_alphabet_def)
next
  case sharp: False
  show ?thesis
  proof (cases "c \<in> set lower_case_letters")
    case True
    then show ?thesis
      by (simp add: lower_case_letters_def)
         (elim disjE;
          simp add: toUpperCase_def lower_case_letters_def upper_case_letters_def
            accepted_alphabet_def)
  next
    case False
    with sharp have up: "toUpperCase c = [c]"
      by (rule toUpperCase_other)
    show ?thesis
    proof (cases "c = CHR ''O''")
      case True
      with up show ?thesis
        by (simp add: accepted_alphabet_def)
    next
      case notO: False
      from False have "c \<notin> set ''pylqgrjcuvo''"
        by (auto simp: lower_case_letters_def)
      with up notO show ?thesis
        by (auto simp: accepted_alphabet_def)
    qed
  qed
qed


lemma TagNormalizer_clean_per_char:
  "TagNormalizer_clean s =
     concat (map (\<lambda>c. map (\<lambda>d. if d = CHR ''O'' then CHR ''0'' else d) (toUpperCase c))
                 (strip_leading_hash s))"
  by (simp add: TagNormalizer_clean_def map_concat comp_def)

lemma list_all_concat_map:
  "list_all P (concat (map g xs)) = list_all (\<lambda>x. list_all P (g x)) xs"
  by (induction xs) simp_all

lemma TagNormalizer_clean_accepted_iff:
  "list_all (\<lambda>d. d \<in> set accepted_alphabet) (TagNormalizer_clean s) \<longleftrightarrow>
   list_all (\<lambda>c. c \<in> set ''0123456789PYLQGRJCUVpylqgrjcuvOo'') (strip_leading_hash s)"
  by (simp only: TagNormalizer_clean_per_char list_all_concat_map fold_char_accepted_iff)

lemma TagNormalizer_clean_no_lower_case:
  "list_all (\<lambda>d. d \<notin> set lower_case_letters \<and> d \<noteq> CHR ''O'') (TagNormalizer_clean s)"
  by (simp only: TagNormalizer_clean_per_char list_all_concat_map fold_char_no_lower_case
      list.pred_True)

lemma toUpperCase_table:
  "list_all (\<lambda>p. toUpperCase (fst p) = [snd p]) (zip lower_case_letters upper_case_letters)"
  by (simp add: toUpperCase_def lower_case_letters_def upper_case_letters_def)

text \<open>
  C7, as amended. \<open>validate\<close> is true of exactly the non-empty strings that, once a
  leading \<open>#\<close> is stripped, consist solely of digits, the letters of
  \<open>PYLQGRJCUV\<close> in either case and the letter \<open>O\<close> in either case; these are
  the non-empty strings whose cleaned form consists solely of the accepted alphabet. On
  every string whose cleaned form consists solely of the accepted alphabet, \<open>clean\<close>
  is idempotent. \<open>clean\<close> strips one leading \<open>#\<close>, uppercases all letters and
  rewrites every \<open>O\<close> to \<open>0\<close>: it is, character by character, the upper case of
  the stripped tag with \<open>0\<close> for \<open>O\<close>, and its result holds neither a
  lower-case letter nor an \<open>O\<close>.
\<close>

theorem C7_valid_tags_and_clean:
  "(validate TagNormalizer s \<longleftrightarrow>
      s \<noteq> [] \<and>
      list_all (\<lambda>c. c \<in> set ''0123456789PYLQGRJCUVpylqgrjcuvOo'') (strip_leading_hash s)) \<and>
   (list_all (\<lambda>d. d \<in> set accepted_alphabet) (clean TagNormalizer s) \<longleftrightarrow>
      list_all (\<lambda>c. c \<in> set ''0123456789PYLQGRJCUVpylqgrjcuvOo'') (strip_leading_hash s)) \<and>
   (s \<noteq> [] \<and> list_all (\<lambda>d. d \<in> set accepted_alphabet) (clean TagNormalizer s) \<longrightarrow>
      validate TagNormalizer s) \<and>
   (list_all (\<lambda>d. d \<in> set accepted_alphabet) (clean TagNormalizer s) \<longrightarrow>
      clean TagNormalizer (clean TagNormalizer s) = clean TagNormalizer s) \<and>
   clean TagNormalizer s =
     concat (map (\<lambda>c. map (\<lambda>d. if d = CHR ''O'' then CHR ''0'' else d) (toUpperCase c))
                 (strip_leading_hash s)) \<and>
   strip_leading_hash [] = [] \<and>
   strip_leading_hash (CHR ''#'' # s) = s \<and>
   (c \<noteq> CHR ''#'' \<longrightarrow> strip_leading_hash (c # s) = c # s) \<and>
   list_all (\<lambda>p. toUpperCase (fst p) = [snd p]) (zip lower_case_letters upper_case_letters) \<and>
   toUpperCase (CHR 0xDF) = ''SS'' \<and>
   (c \<noteq> CHR 0xDF \<and> c \<notin> set lower_case_letters \<longrightarrow> toUpperCase c = [c]) \<and>
   list_all (\<lambda>d. d \<notin> set lower_case_letters \<and> d \<noteq> CHR ''O'') (clean TagNormalizer s)"
proof -
  have cl: "clean TagNormalizer = TagNormalizer_clean"
    and va: "validate TagNormalizer s = TagNormalizer_validate s"
    by (simp_all add: TagNormalizer_def)
  have 1: "TagNormalizer_validate s \<longleftrightarrow>
      s \<noteq> [] \<and>
      list_all (\<lambda>c. c \<in> set ''0123456789PYLQGRJCUVpylqgrjcuvOo'') (strip_leading_hash s)"
    using TagNormalizer_clean_accepted_iff [of s]
    by (simp add: TagNormalizer_validate_def del: set_simps)
  have 2: "list_all (\<lambda>d. d \<in> set accepted_alphabet) (TagNormalizer_clean s) \<longrightarrow>
      TagNormalizer_clean (TagNormalizer_clean s) = TagNormalizer_clean s"
    using TagNormalizer_clean_accepted [of "TagNormalizer_clean s"] by blast
  have 3: "strip_leading_hash [] = []" "strip_leading_hash (CHR ''#'' # s) = s"
    "c \<noteq> CHR ''#'' \<longrightarrow> strip_leading_hash (c # s) = c # s"
    by (simp_all add: strip_leading_hash_def)
  have 4: "toUpperCase (CHR 0xDF) = ''SS''"
    by (simp add: toUpperCase_def)
  have 5: "c \<noteq> CHR 0xDF \<and> c \<notin> set lower_case_letters \<longrightarrow> toUpperCase c = [c]"
    using toUpperCase_other by blast
  from 1 have 6: "s \<noteq> [] \<and> list_all (\<lambda>d. d \<in> set accepted_alphabet) (TagNormalizer_clean s) \<longrightarrow>
      TagNormalizer_validate s"
    using TagNormalizer_clean_accepted_iff [of s] by blast
  show ?thesis
    unfolding cl va
    using 1 2 3 4 5 6 TagNormalizer_clean_accepted_iff [of s] TagNormalizer_clean_per_char [of s]
      toUpperCase_table TagNormalizer_clean_no_lower_case [of s]
    by (intro conjI) assumption+
qed

theorem C7_witness:
  "''#pyl0o'' \<noteq> [] \<and>
   list_all (\<lambda>c. c \<in> set ''0123456789PYLQGRJCUVpylqgrjcuvOo'') (strip_leading_hash ''#pyl0o'') \<and>
   clean TagNormalizer ''#pyl0o'' = ''PYL00'' \<and>
   list_all (\<lambda>d. d \<in> set accepted_alphabet) (clean TagNormalizer ''#pyl0o'') \<and>
   validate TagNormalizer ''#pyl0o'' \<and>
   clean TagNormalizer (clean TagNormalizer ''#pyl0o'') = clean TagNormalizer ''#pyl0o'' \<and>
   clean TagNormalizer ''pyl'' = ''PYL'' \<and>
   clean TagNormalizer ''##ab'' = ''#AB'' \<and>
   clean TagNormalizer [CHR ''o'', CHR 0xE9, CHR 0xDF] = [CHR ''0'', CHR 0xC9, CHR ''S'', CHR ''S''] \<and>
   \<not> list_all (\<lambda>c. c \<in> set ''0123456789PYLQGRJCUVpylqgrjcuvOo'') (strip_leading_hash ''hello world!'') \<and>
   \<not> validate TagNormalizer ''hello world!''"
proof -
  have raw: "''#pyl0o'' \<noteq> [] \<and>
      list_all (\<lambda>c. c \<in> set ''0123456789PYLQGRJCUVpylqgrjcuvOo'') (strip_leading_hash ''#pyl0o'')"
    by (simp add: strip_leading_hash_def)
  have not_raw: "\<not> list_all (\<lambda>c. c \<in> set ''0123456789PYLQGRJCUVpylqgrjcuvOo'')
      (strip_leading_hash ''hello world!'')"
    by (simp add: strip_leading_hash_def)
  note good = C7_valid_tags_and_clean [of "''#pyl0o''" "CHR ''p''"]
  note bad = C7_valid_tags_and_clean [of "''hello world!''" "CHR ''h''"]
  from good raw have v: "validate TagNormalizer ''#pyl0o''"
    by blast
  from good raw have a: "list_all (\<lambda>d. d \<in> set accepted_alphabet) (clean TagNormalizer ''#pyl0o'')"
    by blast
  with good have i: "clean TagNormalizer (clean TagNormalizer ''#pyl0o'') = clean TagNormalizer ''#pyl0o''"
    by blast
  from bad not_raw have n: "\<not> validate TagNormalizer ''hello world!''"
    by blast
  have vals: "clean TagNormalizer ''#pyl0o'' = ''PYL00''"
    "clean TagNormalizer ''pyl'' = ''PYL''"
    "clean TagNormalizer ''##ab'' = ''#AB''"
    "clean TagNormalizer [CHR ''o'', CHR 0xE9, CHR 0xDF] = [CHR ''0'', CHR 0xC9, CHR ''S'', CHR ''S'']"
    by (simp_all add: TagNormalizer_def TagNormalizer_clean_def strip_leading_hash_def
        toUpperCase_def lower_case_letters_def upper_case_letters_def)
  from raw not_raw v a i n vals show ?thesis
    by (intro conjI) (erule conjunct1 conjunct2 | assumption)+
qed

text \<open>
  The claim as stated, for every string of accepted characters, fails at the empty string:
  all of its characters are accepted, and \<open>validate\<close> is false of it.
\<close>

theorem C7_counterexample:
  "list_all (\<lambda>d. d \<in> set accepted_alphabet) (clean TagNormalizer []) \<and>
   list_all (\<lambda>c. c \<in> set ''0123456789PYLQGRJCUVpylqgrjcuvOo'') (strip_leading_hash []) \<and>
   \<not> validate TagNormalizer []"
  by (simp add: TagNormalizer_def TagNormalizer_validate_def TagNormalizer_clean_def
      strip_leading_hash_def)

end
